theory Spec2Isabelle
  imports Main "HOL-Library.Word"
begin

section \<open>Saturn disc-image header locator and field decoder\<close>

text \<open>
  A shallow embedding of the core of \<^verbatim>\<open>GNJ_SaturnPeripheralScanner.py\<close>:
  \<^verbatim>\<open>read_sector_data\<close>, \<^verbatim>\<open>detect_raw_mode\<close>, \<^verbatim>\<open>find_saturn_header\<close>,
  \<^verbatim>\<open>extract_peripheral_codes\<close>, \<^verbatim>\<open>extract_game_info\<close>,
  \<^verbatim>\<open>ScanResult.get_human_readable_peripherals\<close> and the part of \<^verbatim>\<open>scan_file\<close>
  that works on the bytes read.

  A Python \<^verbatim>\<open>bytes\<close> value is a list of 8-bit words. A Python \<^verbatim>\<open>str\<close> is a list of
  Unicode code points (natural numbers), since the replacement character U+FFFD that
  \<^verbatim>\<open>decode('ascii', errors='replace')\<close> produces does not fit an 8-bit character.
\<close>

subsection \<open>Bytes, strings and slices\<close>

type_synonym byte = "8 word"
type_synonym bytes = "byte list"
type_synonym codepoint = nat
type_synonym str = "codepoint list"

text \<open>A bytes literal \<^verbatim>\<open>b'...'\<close> and a string literal \<^verbatim>\<open>'...'\<close> of ASCII characters.\<close>

definition bytes_lit :: "string \<Rightarrow> bytes" where
  "bytes_lit s = map of_char s"

definition str_lit :: "string \<Rightarrow> str" where
  "str_lit s = map of_char s"

text \<open>
  The slice \<^verbatim>\<open>xs[lo:hi]\<close> for indices \<open>0 \<le> lo \<le> hi\<close>, the only ones the program
  uses: Python clips the slice at the end of the sequence and never raises.
\<close>

definition py_slice :: "'a list \<Rightarrow> nat \<Rightarrow> nat \<Rightarrow> 'a list" where
  "py_slice xs lo hi = take (hi - lo) (drop lo xs)"

subsection \<open>Constants\<close>

definition SATURN_MAGIC :: bytes where
  "SATURN_MAGIC = bytes_lit ''SEGA SEGASATURN ''"

definition OFFSET_PRODUCT_NUM :: nat where "OFFSET_PRODUCT_NUM = 0x20"
definition OFFSET_VERSION :: nat where "OFFSET_VERSION = 0x2A"
definition OFFSET_AREA_CODES :: nat where "OFFSET_AREA_CODES = 0x40"
definition OFFSET_PERIPHERAL :: nat where "OFFSET_PERIPHERAL = 0x50"
definition OFFSET_GAME_TITLE :: nat where "OFFSET_GAME_TITLE = 0x60"

definition SECTOR_SIZE_MODE1 :: nat where "SECTOR_SIZE_MODE1 = 2048"
definition SECTOR_SIZE_RAW :: nat where "SECTOR_SIZE_RAW = 2352"
definition RAW_SECTOR_DATA_OFFSET :: nat where "RAW_SECTOR_DATA_OFFSET = 16"

subsection \<open>Sector access\<close>

text \<open>
  \<^verbatim>\<open>read_sector_data(data, sector, raw_mode)\<close>. The sector index is a natural number:
  every call passes \<^verbatim>\<open>0\<close> or an element of \<^verbatim>\<open>range(16)\<close>. The flag \<open>raw_mode\<close> is the
  framing mode: \<open>True\<close> is Raw (2352-byte sectors), \<open>False\<close> is Stripped (2048-byte
  sectors).
\<close>

definition read_sector_data :: "bytes \<Rightarrow> nat \<Rightarrow> bool \<Rightarrow> bytes option" where
  "read_sector_data data sector raw_mode =
     (if raw_mode then
        (let offset = sector * SECTOR_SIZE_RAW + RAW_SECTOR_DATA_OFFSET in
         if offset + SECTOR_SIZE_MODE1 > length data then None
         else Some (py_slice data offset (offset + SECTOR_SIZE_MODE1)))
      else
        (let offset = sector * SECTOR_SIZE_MODE1 in
         if offset + SECTOR_SIZE_MODE1 > length data then None
         else Some (py_slice data offset (offset + SECTOR_SIZE_MODE1))))"

definition sync_pattern :: bytes where
  "sync_pattern = [0x00] @ replicate 10 0xFF @ [0x00]"

definition detect_raw_mode :: "bytes \<Rightarrow> bool" where
  "detect_raw_mode data =
     (if length data < 16 then False
      else py_slice data 0 12 = sync_pattern)"

subsection \<open>Header locator\<close>

text \<open>
  The test \<^verbatim>\<open>sector_data and sector_data[:16] == SATURN_MAGIC\<close>: \<^verbatim>\<open>None\<close> and the empty
  bytes value are both false in Python.
\<close>

definition is_header_sector :: "bytes option \<Rightarrow> bool" where
  "is_header_sector sector_data =
     (case sector_data of
        None \<Rightarrow> False
      | Some sd \<Rightarrow> sd \<noteq> [] \<and> py_slice sd 0 16 = SATURN_MAGIC)"

text \<open>
  The loop \<^verbatim>\<open>for sector in range(16): ...\<close> with its early \<^verbatim>\<open>return\<close>, over the list
  of sectors still to visit: \<open>Some\<close> is the header returned from inside the loop,
  \<open>None\<close> is the loop running to its end.
\<close>

fun scan_sectors :: "bytes \<Rightarrow> bool \<Rightarrow> nat list \<Rightarrow> bytes option" where
  "scan_sectors data raw_mode [] = None"
| "scan_sectors data raw_mode (sector # rest) =
     (let sector_data = read_sector_data data sector raw_mode in
      if is_header_sector sector_data then Some (py_slice (the sector_data) 0 256)
      else scan_sectors data raw_mode rest)"

definition find_saturn_header :: "bytes \<Rightarrow> bytes option \<times> bool" where
  "find_saturn_header data =
     (let is_raw = detect_raw_mode data;
          sector_data = read_sector_data data 0 is_raw in
      if is_header_sector sector_data then (Some (py_slice (the sector_data) 0 256), is_raw)
      else
        (case scan_sectors data is_raw [0..<16] of
           Some header \<Rightarrow> (Some header, is_raw)
         | None \<Rightarrow>
             if is_raw then
               (case scan_sectors data False [0..<16] of
                  Some header \<Rightarrow> (Some header, False)
                | None \<Rightarrow> (None, False))
             else (None, False)))"

subsection \<open>Text of the standard library\<close>

text \<open>
  An exception raised inside a \<^verbatim>\<open>try\<close> block; both \<^verbatim>\<open>try\<close> blocks of the decoder
  end in a bare \<^verbatim>\<open>except:\<close>, which catches every exception alike.
\<close>

datatype exn = Raised

text \<open>
  \<^verbatim>\<open>bytes.decode('ascii', errors='replace')\<close>: a byte below \<open>0x80\<close> is the character
  of that code point, any other byte becomes U+FFFD. It never raises.
\<close>

definition decode_ascii_replace :: "bytes \<Rightarrow> exn + str" where
  "decode_ascii_replace bs = Inr (map (\<lambda>b. if b < 0x80 then unat b else 0xFFFD) bs)"

text \<open>\<^verbatim>\<open>bytes.hex()\<close>: two lowercase hexadecimal digits for each byte.\<close>

definition hex_digit :: "nat \<Rightarrow> codepoint" where
  "hex_digit n = str_lit ''0123456789abcdef'' ! (n mod 16)"

definition hex :: "bytes \<Rightarrow> str" where
  "hex bs = concat (map (\<lambda>b. [hex_digit (unat b div 16), hex_digit (unat b mod 16)]) bs)"

text \<open>
  \<^verbatim>\<open>str.isprintable\<close> on the code points that reach it in this program: U+0000 to
  U+007F and U+FFFD from the decoder, and ASCII digits and letters from \<^verbatim>\<open>hex\<close>.
  Among these the printable ones are U+0020 to U+007E and U+FFFD (category So); the
  control characters U+0000 to U+001F and U+007F are not. Other code points are
  decided by the Unicode database, which the program never consults on them.
\<close>

definition isprintable :: "codepoint \<Rightarrow> bool" where
  "isprintable c = ((0x20 \<le> c \<and> c \<le> 0x7E) \<or> c = 0xFFFD)"

text \<open>\<^verbatim>\<open>str.isspace\<close> of one character, and \<^verbatim>\<open>str.rstrip()\<close> without arguments.\<close>

definition isspace :: "codepoint \<Rightarrow> bool" where
  "isspace c = ((0x09 \<le> c \<and> c \<le> 0x0D) \<or> (0x1C \<le> c \<and> c \<le> 0x20) \<or> c = 0x85 \<or> c = 0xA0 \<or>
     c = 0x1680 \<or> (0x2000 \<le> c \<and> c \<le> 0x200A) \<or> c = 0x2028 \<or> c = 0x2029 \<or>
     c = 0x202F \<or> c = 0x205F \<or> c = 0x3000)"

definition rstrip :: "str \<Rightarrow> str" where
  "rstrip s = rev (dropWhile isspace (rev s))"

text \<open>\<^verbatim>\<open>sep.join(xs)\<close>.\<close>

fun join :: "str \<Rightarrow> str list \<Rightarrow> str" where
  "join sep [] = []"
| "join sep [x] = x"
| "join sep (x # y # ys) = x @ sep @ join sep (y # ys)"

subsection \<open>Field decoder\<close>

text \<open>
  The loop of \<^verbatim>\<open>extract_peripheral_codes\<close> over the characters of \<^verbatim>\<open>peripheral_raw\<close>,
  appending to \<^verbatim>\<open>codes\<close>. A code is a one-character string, kept as its code point.
\<close>

fun collect_codes :: "str \<Rightarrow> codepoint list \<Rightarrow> codepoint list" where
  "collect_codes [] codes = codes"
| "collect_codes (char # rest) codes =
     (if char \<noteq> 0x20 \<and> char \<noteq> 0x00 \<and> isprintable char
      then collect_codes rest (codes @ [char])
      else collect_codes rest codes)"

text \<open>
  \<^verbatim>\<open>extract_peripheral_codes\<close> and \<^verbatim>\<open>extract_game_info\<close>, with the call of
  \<^verbatim>\<open>decode\<close> inside their \<^verbatim>\<open>try\<close> blocks as a parameter, so that the \<^verbatim>\<open>except\<close>
  branches can be stated: \<open>Inl\<close> is the call raising. The program's own functions
  are the instances at \<^const>\<open>decode_ascii_replace\<close>.
\<close>

definition extract_peripheral_codes_with ::
  "(bytes \<Rightarrow> exn + str) \<Rightarrow> bytes \<Rightarrow> str \<times> codepoint list" where
  "extract_peripheral_codes_with decode header =
     (let peripheral_bytes = py_slice header OFFSET_PERIPHERAL (OFFSET_PERIPHERAL + 16);
          peripheral_raw = (case decode peripheral_bytes of
                              Inr text \<Rightarrow> text
                            | Inl e \<Rightarrow> hex peripheral_bytes)
      in (peripheral_raw, collect_codes peripheral_raw []))"

definition extract_peripheral_codes :: "bytes \<Rightarrow> str \<times> codepoint list" where
  "extract_peripheral_codes header = extract_peripheral_codes_with decode_ascii_replace header"

definition extract_game_info_with ::
  "(bytes \<Rightarrow> exn + str) \<Rightarrow> bytes \<Rightarrow> str \<times> str \<times> str \<times> str" where
  "extract_game_info_with decode header =
     (case decode (py_slice header OFFSET_GAME_TITLE (OFFSET_GAME_TITLE + 112)) of
        Inl e \<Rightarrow> ([], [], [], [])
      | Inr game_title \<Rightarrow>
     (case decode (py_slice header OFFSET_VERSION (OFFSET_VERSION + 6)) of
        Inl e \<Rightarrow> ([], [], [], [])
      | Inr version \<Rightarrow>
     (case decode (py_slice header OFFSET_PRODUCT_NUM (OFFSET_PRODUCT_NUM + 10)) of
        Inl e \<Rightarrow> ([], [], [], [])
      | Inr product_number \<Rightarrow>
     (case decode (py_slice header OFFSET_AREA_CODES (OFFSET_AREA_CODES + 16)) of
        Inl e \<Rightarrow> ([], [], [], [])
      | Inr area_codes \<Rightarrow>
          (rstrip game_title, rstrip version, rstrip product_number, rstrip area_codes)))))"

definition extract_game_info :: "bytes \<Rightarrow> str \<times> str \<times> str \<times> str" where
  "extract_game_info header = extract_game_info_with decode_ascii_replace header"

subsection \<open>Scan result and peripheral catalog\<close>

text \<open>The dictionary \<^verbatim>\<open>PERIPHERAL_CODES\<close>; a key is a one-character string.\<close>

definition PERIPHERAL_CODES :: "codepoint \<rightharpoonup> str" where
  "PERIPHERAL_CODES = map_of
     [(of_char CHR ''J'', str_lit ''Control Pad''),
      (of_char CHR ''A'', str_lit ''Analog Controller''),
      (of_char CHR ''E'', str_lit ''3D Controller''),
      (of_char CHR ''M'', str_lit ''Mouse''),
      (of_char CHR ''K'', str_lit ''Keyboard''),
      (of_char CHR ''S'', str_lit ''Steering Controller''),
      (of_char CHR ''T'', str_lit ''Multitap''),
      (of_char CHR ''G'', str_lit ''Virtua Gun''),
      (of_char CHR ''W'', str_lit ''RAM Cartridge''),
      (of_char CHR ''C'', str_lit ''Link Cable (JP)''),
      (of_char CHR ''D'', str_lit ''DirectLink (US)''),
      (of_char CHR ''X'', str_lit ''NetLink Modem''),
      (of_char CHR ''Q'', str_lit ''Pachinko Controller''),
      (of_char CHR ''F'', str_lit ''Floppy Drive''),
      (of_char CHR ''R'', str_lit ''ROM Cartridge''),
      (of_char CHR ''P'', str_lit ''Video CD Card'')]"

text \<open>
  The class \<^verbatim>\<open>ScanResult\<close>. Its attribute \<^verbatim>\<open>filename\<close>, the base name of
  \<^verbatim>\<open>filepath\<close> as the operating system computes it, is read by the report only and
  is left out.
\<close>

record ScanResult =
  filepath :: str
  success :: bool
  skipped :: bool
  skip_reason :: str
  peripheral_raw :: str
  peripheral_codes :: "codepoint list"
  game_title :: str
  version :: str
  product_number :: str
  area_codes :: str

definition ScanResult_init :: "str \<Rightarrow> ScanResult" where
  "ScanResult_init path =
     \<lparr>filepath = path, success = False, skipped = False, skip_reason = [],
      peripheral_raw = [], peripheral_codes = [], game_title = [], version = [],
      product_number = [], area_codes = []\<rparr>"

text \<open>The loop of \<^verbatim>\<open>get_human_readable_peripherals\<close>, appending to \<^verbatim>\<open>descriptions\<close>.\<close>

fun describe_codes :: "codepoint list \<Rightarrow> str list \<Rightarrow> str list" where
  "describe_codes [] descriptions = descriptions"
| "describe_codes (code # rest) descriptions =
     (if PERIPHERAL_CODES code \<noteq> None
      then describe_codes rest (descriptions @ [the (PERIPHERAL_CODES code)])
      else describe_codes rest (descriptions @ [str_lit ''Unknown('' @ [code] @ str_lit '')'']))"

definition get_human_readable_peripherals :: "ScanResult \<Rightarrow> str" where
  "get_human_readable_peripherals self =
     join (str_lit '', '') (describe_codes (peripheral_codes self) [])"

text \<open>
  \<^verbatim>\<open>scan_file\<close> from the point where the bytes \<^verbatim>\<open>data\<close> have been read from the file:
  the checks of the file's extension, existence and size and the read itself are
  input and output, and nothing after the read raises.
\<close>

definition scan_data :: "str \<Rightarrow> bytes \<Rightarrow> ScanResult" where
  "scan_data path data =
     (let result = ScanResult_init path in
      case find_saturn_header data of
        (None, is_raw) \<Rightarrow>
          result\<lparr>skipped := True, skip_reason := str_lit ''No Saturn header found''\<rparr>
      | (Some header, is_raw) \<Rightarrow>
          (let (raw, codes) = extract_peripheral_codes header;
               (title, ver, product, area) = extract_game_info header
           in result\<lparr>peripheral_raw := raw, peripheral_codes := codes,
                     game_title := title, version := ver,
                     product_number := product, area_codes := area,
                     success := True\<rparr>))"

subsection \<open>Concrete inputs\<close>

text \<open>
  A Stripped image with the header in sector 0; a Raw image with the header in sector 0;
  an image with sync bytes whose header sits in Stripped sector 5; a 4096-byte image with
  sync bytes whose header sits in Stripped sector 1; a 256-byte header whose peripheral
  field is \<^verbatim>\<open>JAMK\<close>; one whose peripheral field starts with the byte \<open>0xE9\<close>.
\<close>

definition image_stripped :: bytes where
  "image_stripped = SATURN_MAGIC @ replicate 2032 0x41"

definition image_raw :: bytes where
  "image_raw = sync_pattern @ replicate 4 0 @ SATURN_MAGIC @ replicate 2032 0x41"

definition image_fallback :: bytes where
  "image_fallback = sync_pattern @ replicate 10228 0 @ SATURN_MAGIC @ replicate 2032 0x41"

definition image_truncated :: bytes where
  "image_truncated = sync_pattern @ replicate 2036 0 @ SATURN_MAGIC @ replicate 2032 0x41"

definition header_jamk :: bytes where
  "header_jamk = SATURN_MAGIC @ replicate 64 0x20 @ bytes_lit ''JAMK'' @ replicate 12 0x20 @
     replicate 160 0x20"

definition header_non_ascii :: bytes where
  "header_non_ascii = SATURN_MAGIC @ replicate 64 0x20 @ [0xE9, 0x4A] @ replicate 14 0x20 @
     replicate 160 0x20"

text \<open>
  \<^verbatim>\<open>bytes.decode('ascii')\<close> with the default strict error handling, which raises on a
  byte from \<open>0x80\<close> up. The program does not call it; it is a decoder that can raise,
  to run the \<^verbatim>\<open>except\<close> branches on. With it, a header whose title starts with the
  byte \<open>0xE9\<close>.
\<close>

definition decode_ascii_strict :: "bytes \<Rightarrow> exn + str" where
  "decode_ascii_strict bs =
     (if list_all (\<lambda>b. b < 0x80) bs then Inr (map unat bs) else Inl Raised)"

definition header_bad_title :: bytes where
  "header_bad_title = SATURN_MAGIC @ replicate 64 0x20 @ [0x4A] @ replicate 15 0x20 @
     [0xE9] @ replicate 159 0x20"

section \<open>Properties\<close>

subsection \<open>Auxiliary facts\<close>

lemmas sector_consts = SECTOR_SIZE_MODE1_def SECTOR_SIZE_RAW_def RAW_SECTOR_DATA_OFFSET_def

lemmas field_offsets = OFFSET_PRODUCT_NUM_def OFFSET_VERSION_def OFFSET_AREA_CODES_def
  OFFSET_PERIPHERAL_def OFFSET_GAME_TITLE_def

lemma length_SATURN_MAGIC: "length SATURN_MAGIC = 16"
  by (simp add: SATURN_MAGIC_def bytes_lit_def)

lemma length_sync_pattern: "length sync_pattern = 12"
  by (simp add: sync_pattern_def)

lemma replicate_10: "replicate 10 x = [x, x, x, x, x, x, x, x, x, x]"
  by (simp add: eval_nat_numeral)

lemma replicate_12: "replicate 12 x = [x, x, x, x, x, x, x, x, x, x, x, x]"
  by (simp add: eval_nat_numeral)

lemma magic_not_sync: "take 12 SATURN_MAGIC \<noteq> sync_pattern"
  by (simp add: SATURN_MAGIC_def bytes_lit_def sync_pattern_def)

lemma zeros_not_magic: "0 < n \<Longrightarrow> replicate n (0::byte) \<noteq> SATURN_MAGIC"
  by (cases n) (simp_all add: SATURN_MAGIC_def bytes_lit_def)

text \<open>A sector passes the test exactly when its window fits and starts with the signature.\<close>

lemma is_header_sector_read:
  "is_header_sector (read_sector_data data s raw) \<longleftrightarrow>
     (let offset = (if raw then s * 2352 + 16 else s * 2048) in
      offset + 2048 \<le> length data \<and> py_slice data offset (offset + 16) = SATURN_MAGIC)"
  by (auto simp add: is_header_sector_def read_sector_data_def sector_consts py_slice_def
      Let_def min_def)

lemma header_of_read:
  "is_header_sector (read_sector_data data s raw) \<Longrightarrow>
     py_slice (the (read_sector_data data s raw)) 0 256 =
       (let offset = (if raw then s * 2352 + 16 else s * 2048)
        in py_slice data offset (offset + 256))"
  by (auto simp add: is_header_sector_def read_sector_data_def sector_consts py_slice_def
      Let_def min_def split: if_splits)

lemma scan_sectors_None_iff:
  "scan_sectors data raw ss = None \<longleftrightarrow>
     (\<forall>s \<in> set ss. \<not> is_header_sector (read_sector_data data s raw))"
  by (induction ss) (auto simp add: Let_def)

lemma scan_sectors_first:
  "(\<forall>s \<in> set pre. \<not> is_header_sector (read_sector_data data s raw)) \<Longrightarrow>
   is_header_sector (read_sector_data data s raw) \<Longrightarrow>
   scan_sectors data raw (pre @ s # post) =
     Some (py_slice (the (read_sector_data data s raw)) 0 256)"
  by (induction pre) (auto simp add: Let_def)

lemma scan_sectors_Some:
  "scan_sectors data raw ss = Some h \<Longrightarrow>
   \<exists>s \<in> set ss. is_header_sector (read_sector_data data s raw) \<and>
     h = py_slice (the (read_sector_data data s raw)) 0 256"
  by (induction ss) (auto simp add: Let_def split: if_splits)

lemma scan_sectors_skip:
  "\<not> is_header_sector (read_sector_data data s raw) \<Longrightarrow>
   scan_sectors data raw (pre @ s # rest) = scan_sectors data raw (pre @ rest)"
  by (induction pre) (simp_all add: Let_def)

lemma find_saturn_header_None_iff:
  "fst (find_saturn_header data) = None \<longleftrightarrow>
     (\<forall>s<16. \<not> is_header_sector (read_sector_data data s (detect_raw_mode data))) \<and>
     (detect_raw_mode data \<longrightarrow>
        (\<forall>s<16. \<not> is_header_sector (read_sector_data data s False)))"
proof -
  have a: "scan_sectors data raw [0..<16] = None \<longleftrightarrow>
             (\<forall>s<16. \<not> is_header_sector (read_sector_data data s raw))" for raw
    by (auto simp add: scan_sectors_None_iff)
  have "fst (find_saturn_header data) = None \<longleftrightarrow>
     \<not> is_header_sector (read_sector_data data 0 (detect_raw_mode data)) \<and>
     scan_sectors data (detect_raw_mode data) [0..<16] = None \<and>
     (detect_raw_mode data \<longrightarrow> scan_sectors data False [0..<16] = None)"
    by (simp add: find_saturn_header_def Let_def split: option.splits)
  thus ?thesis unfolding a by auto
qed

lemma find_saturn_header_image_raw:
  "find_saturn_header image_raw = (Some (SATURN_MAGIC @ replicate 240 0x41), True)"
  by (simp add: find_saturn_header_def detect_raw_mode_def read_sector_data_def
      is_header_sector_def sector_consts py_slice_def image_raw_def length_SATURN_MAGIC
      length_sync_pattern Let_def)

lemma length_image_fallback: "length image_fallback = 12288"
  by (simp add: image_fallback_def length_SATURN_MAGIC length_sync_pattern)

lemma image_fallback_stripped:
  assumes "s < 5"
  shows "py_slice image_fallback (s * 2048) (s * 2048 + 16) \<noteq> SATURN_MAGIC"
proof -
  from assms consider "s = 0" | "s = 1" | "s = 2" | "s = 3" | "s = 4" by arith
  then show ?thesis
  proof cases
    case 1
    have "take 12 (py_slice image_fallback 0 16) = sync_pattern"
      by (simp add: image_fallback_def py_slice_def length_sync_pattern)
    with magic_not_sync show ?thesis unfolding 1 by auto
  qed (simp_all add: image_fallback_def py_slice_def length_SATURN_MAGIC length_sync_pattern
        zeros_not_magic)
qed

lemma image_fallback_raw:
  assumes "s * 2352 + 16 + 2048 \<le> length image_fallback"
  shows "py_slice image_fallback (s * 2352 + 16) (s * 2352 + 16 + 16) \<noteq> SATURN_MAGIC"
proof -
  from assms have "s < 5" unfolding length_image_fallback by arith
  then consider "s = 0" | "s = 1" | "s = 2" | "s = 3" | "s = 4" by arith
  then show ?thesis
    by cases (simp_all add: image_fallback_def py_slice_def length_SATURN_MAGIC
        length_sync_pattern zeros_not_magic)
qed

lemma collect_codes_filter:
  "collect_codes s codes = codes @ filter (\<lambda>c. c \<noteq> 0x20 \<and> c \<noteq> 0 \<and> isprintable c) s"
  by (induction s arbitrary: codes) simp_all

lemma describe_codes_map:
  "describe_codes codes ds =
     ds @ map (\<lambda>code. case PERIPHERAL_CODES code of
                         Some name \<Rightarrow> name
                       | None \<Rightarrow> str_lit ''Unknown('' @ [code] @ str_lit '')'') codes"
  by (induction codes arbitrary: ds) auto

lemma dom_PERIPHERAL_CODES:
  "dom PERIPHERAL_CODES = of_char ` set ''JAEMKSTGWCDXQFRP''"
  by (simp add: PERIPHERAL_CODES_def dom_map_of_conv_image_fst)

lemma peripheral_field:
  "fst (extract_peripheral_codes header) =
     map (\<lambda>b. if b < 0x80 then unat b else 0xFFFD) (py_slice header 0x50 0x60)"
  by (simp add: extract_peripheral_codes_def extract_peripheral_codes_with_def
      decode_ascii_replace_def field_offsets Let_def)

lemma peripheral_codes_eq:
  "snd (extract_peripheral_codes header) =
     filter (\<lambda>c. c \<noteq> 0x20 \<and> c \<noteq> 0 \<and> isprintable c)
       (fst (extract_peripheral_codes header))"
  by (simp add: extract_peripheral_codes_def extract_peripheral_codes_with_def
      Let_def collect_codes_filter)

lemma rstrip_spaces: "rstrip (xs @ replicate n 0x20) = rstrip xs"
proof -
  have "dropWhile isspace (replicate n 0x20 @ rev xs) = dropWhile isspace (rev xs)"
    by (rule dropWhile_append2) (simp add: isspace_def)
  thus ?thesis by (simp add: rstrip_def)
qed

lemma rstrip_spaces_only: "rstrip (replicate n 0x20) = []"
  using rstrip_spaces [of "[]" n] by (simp add: rstrip_def)

lemma replicate_14: "replicate 14 x = [x, x, x, x, x, x, x, x, x, x, x, x, x, x]"
  by (simp add: eval_nat_numeral)

lemma decode_byte_repl: "(if b < 0x80 then unat b else 0xFFFD) = (0xFFFD::nat) \<longleftrightarrow> 0x80 \<le> (b::byte)"
proof (cases "b < 0x80")
  case True
  hence "unat b < 128" by (simp add: word_less_nat_alt)
  with True show ?thesis by auto
next
  case False
  then show ?thesis by auto
qed

lemma count_repl:
  "count_list (filter (\<lambda>c. c \<noteq> 0x20 \<and> c \<noteq> 0 \<and> isprintable c)
       (map (\<lambda>b. if b < 0x80 then unat b else 0xFFFD) (bs::bytes))) 0xFFFD =
   length (filter (\<lambda>b. 0x80 \<le> b) bs)"
proof (induction bs)
  case Nil
  show ?case by simp
next
  case (Cons b bs)
  show ?case
  proof (cases "0x80 \<le> b")
    case True
    hence "\<not> b < 0x80" by auto
    with True Cons show ?thesis by (simp add: isprintable_def)
  next
    case False
    hence lt: "b < 0x80" by auto
    hence "unat b \<noteq> 0xFFFD" using decode_byte_repl [of b] False by simp
    with False lt Cons show ?thesis by simp
  qed
qed

subsection \<open>Header locator\<close>

text \<open>
  C1. For every buffer of at least 2048 bytes whose first 16 bytes are the signature
  \<^verbatim>\<open>SEGA SEGASATURN \<close>, \<^verbatim>\<open>find_saturn_header\<close> returns bytes [0, 256) of the buffer as
  the header, tagged Stripped (\<open>is_raw = False\<close>).
\<close>

theorem find_saturn_header_stripped_sector0:
  assumes "2048 \<le> length data" and "py_slice data 0 16 = SATURN_MAGIC"
  shows "find_saturn_header data = (Some (py_slice data 0 256), False)"
proof -
  have "take 12 (take 16 data) \<noteq> sync_pattern"
    using assms(2) magic_not_sync by (simp add: py_slice_def)
  hence stripped: "\<not> detect_raw_mode data"
    by (simp add: detect_raw_mode_def py_slice_def)
  have m: "is_header_sector (read_sector_data data 0 False)"
    using assms by (simp add: is_header_sector_read)
  show ?thesis
    using stripped m header_of_read [OF m] by (simp add: find_saturn_header_def)
qed

theorem find_saturn_header_stripped_sector0_witness:
  "2048 \<le> length image_stripped \<and> py_slice image_stripped 0 16 = SATURN_MAGIC \<and>
   find_saturn_header image_stripped = (Some (SATURN_MAGIC @ replicate 240 0x41), False)"
  using find_saturn_header_stripped_sector0 [of image_stripped]
  by (simp add: image_stripped_def py_slice_def length_SATURN_MAGIC)

text \<open>
  C2. For every buffer of at least 2064 bytes that starts with the 12-byte sync pattern
  and has the signature at bytes [16, 32), \<^verbatim>\<open>find_saturn_header\<close> returns bytes
  [16, 272) of the buffer as the header, tagged Raw (\<open>is_raw = True\<close>).
\<close>

theorem find_saturn_header_raw_sector0:
  assumes "2064 \<le> length data" and "py_slice data 0 12 = sync_pattern"
    and "py_slice data 16 32 = SATURN_MAGIC"
  shows "find_saturn_header data = (Some (py_slice data 16 272), True)"
proof -
  have raw: "detect_raw_mode data"
    using assms by (simp add: detect_raw_mode_def)
  have m: "is_header_sector (read_sector_data data 0 True)"
    using assms by (simp add: is_header_sector_read)
  show ?thesis
    using raw m header_of_read [OF m] by (simp add: find_saturn_header_def)
qed

theorem find_saturn_header_raw_sector0_witness:
  "2064 \<le> length image_raw \<and> py_slice image_raw 0 12 = sync_pattern \<and>
   py_slice image_raw 16 32 = SATURN_MAGIC \<and>
   find_saturn_header image_raw = (Some (SATURN_MAGIC @ replicate 240 0x41), True)"
  using find_saturn_header_raw_sector0 [of image_raw]
  by (simp add: image_raw_def py_slice_def length_SATURN_MAGIC length_sync_pattern)

text \<open>
  C3. For every buffer that starts with the sync pattern, in which no Raw window of
  sectors 0 to 15 that fits the buffer starts with the signature, and in which sector 5
  is the first Stripped sector whose window fits and starts with the signature,
  \<^verbatim>\<open>find_saturn_header\<close> returns bytes [5 * 2048, 5 * 2048 + 256) of the buffer, tagged
  Stripped: the fallback path.
\<close>

theorem find_saturn_header_stripped_fallback:
  assumes sync: "py_slice data 0 12 = sync_pattern"
    and no_raw: "\<forall>s<16. s * 2352 + 16 + 2048 \<le> length data \<longrightarrow>
                   py_slice data (s * 2352 + 16) (s * 2352 + 16 + 16) \<noteq> SATURN_MAGIC"
    and fits: "5 * 2048 + 2048 \<le> length data"
    and at5: "py_slice data (5 * 2048) (5 * 2048 + 16) = SATURN_MAGIC"
    and first: "\<forall>s<5. s * 2048 + 2048 \<le> length data \<longrightarrow>
                  py_slice data (s * 2048) (s * 2048 + 16) \<noteq> SATURN_MAGIC"
  shows "find_saturn_header data =
           (Some (py_slice data (5 * 2048) (5 * 2048 + 256)), False)"
proof -
  have raw: "detect_raw_mode data"
    using sync fits by (simp add: detect_raw_mode_def)
  have nr: "\<not> is_header_sector (read_sector_data data s True)" if "s < 16" for s
    using no_raw that by (simp add: is_header_sector_read)
  have n0: "\<not> is_header_sector (read_sector_data data 0 True)"
    using nr [of 0] by simp
  have raw_none: "scan_sectors data True [0..<16] = None"
    by (simp add: scan_sectors_None_iff nr)
  have m: "is_header_sector (read_sector_data data 5 False)"
    using fits at5 by (simp add: is_header_sector_read)
  have pre: "\<forall>s \<in> set [0..<5]. \<not> is_header_sector (read_sector_data data s False)"
    using first by (auto simp add: is_header_sector_read)
  have sectors: "[0..<16] = [0..<5] @ 5 # [6..<16]"
    by (simp add: upt_conv_Cons [symmetric] upt_add_eq_append [of 0 5 11, simplified])
  have "scan_sectors data False [0..<16] =
          Some (py_slice (the (read_sector_data data 5 False)) 0 256)"
    unfolding sectors by (rule scan_sectors_first [OF pre m])
  thus ?thesis
    using raw n0 raw_none header_of_read [OF m] by (simp add: find_saturn_header_def)
qed

theorem find_saturn_header_stripped_fallback_witness:
  "py_slice image_fallback 0 12 = sync_pattern \<and>
   read_sector_data image_fallback 5 True = None \<and>
   find_saturn_header image_fallback = (Some (SATURN_MAGIC @ replicate 240 0x41), False)"
proof -
  have sync: "py_slice image_fallback 0 12 = sync_pattern"
    by (simp add: image_fallback_def py_slice_def length_sync_pattern)
  have "find_saturn_header image_fallback =
          (Some (py_slice image_fallback (5 * 2048) (5 * 2048 + 256)), False)"
  proof (rule find_saturn_header_stripped_fallback [OF sync])
    show "\<forall>s<16. s * 2352 + 16 + 2048 \<le> length image_fallback \<longrightarrow>
            py_slice image_fallback (s * 2352 + 16) (s * 2352 + 16 + 16) \<noteq> SATURN_MAGIC"
      using image_fallback_raw by blast
    show "5 * 2048 + 2048 \<le> length image_fallback"
      by (simp add: length_image_fallback)
    show "py_slice image_fallback (5 * 2048) (5 * 2048 + 16) = SATURN_MAGIC"
      by (simp add: image_fallback_def py_slice_def length_SATURN_MAGIC length_sync_pattern)
    show "\<forall>s<5. s * 2048 + 2048 \<le> length image_fallback \<longrightarrow>
            py_slice image_fallback (s * 2048) (s * 2048 + 16) \<noteq> SATURN_MAGIC"
      using image_fallback_stripped by blast
  qed
  moreover have "py_slice image_fallback (5 * 2048) (5 * 2048 + 256) =
                   SATURN_MAGIC @ replicate 240 0x41"
    by (simp add: image_fallback_def py_slice_def length_SATURN_MAGIC length_sync_pattern)
  moreover have "read_sector_data image_fallback 5 True = None"
    by (simp add: read_sector_data_def sector_consts length_image_fallback)
  ultimately show ?thesis using sync by simp
qed

text \<open>
  C4. Whenever \<^verbatim>\<open>find_saturn_header\<close> returns a header, the header is exactly 256 bytes
  long and its first 16 bytes are the signature.
\<close>

theorem find_saturn_header_signature:
  assumes "find_saturn_header data = (Some header, is_raw)"
  shows "length header = 256 \<and> py_slice header 0 16 = SATURN_MAGIC"
proof -
  have key: "length (py_slice (the (read_sector_data data s raw)) 0 256) = 256 \<and>
             py_slice (py_slice (the (read_sector_data data s raw)) 0 256) 0 16 = SATURN_MAGIC"
    if "is_header_sector (read_sector_data data s raw)" for s raw
    using that header_of_read [OF that]
    by (auto simp add: is_header_sector_read py_slice_def Let_def min_def split: if_splits)
  from assms obtain s raw where "is_header_sector (read_sector_data data s raw)"
    and "header = py_slice (the (read_sector_data data s raw)) 0 256"
    by (auto simp add: find_saturn_header_def Let_def split: if_splits option.splits
        dest: scan_sectors_Some)
  thus ?thesis using key by blast
qed

theorem find_saturn_header_signature_witness:
  "find_saturn_header image_raw = (Some (SATURN_MAGIC @ replicate 240 0x41), True) \<and>
   length (SATURN_MAGIC @ replicate 240 (0x41::byte)) = 256 \<and>
   py_slice (SATURN_MAGIC @ replicate 240 (0x41::byte)) 0 16 = SATURN_MAGIC"
  using find_saturn_header_signature [OF find_saturn_header_image_raw]
    find_saturn_header_image_raw by simp

subsection \<open>Sector framing detector\<close>

text \<open>
  C5, as amended. For every buffer of at least 16 bytes whose first 12 bytes are the
  sync pattern \<open>00 FF\<times>10 00\<close>, \<^verbatim>\<open>detect_raw_mode\<close> returns Raw; for every buffer of at
  least 12 bytes whose first 12 bytes are any other pattern it returns Stripped. The
  claim as written asks for Raw on every buffer that starts with the sync pattern; a
  buffer of 12 to 15 bytes that does so is Stripped, by the guard on the length.
\<close>

theorem detect_raw_mode_sync:
  "(16 \<le> length data \<and> py_slice data 0 12 = sync_pattern \<longrightarrow> detect_raw_mode data) \<and>
   (12 \<le> length data \<and> py_slice data 0 12 \<noteq> sync_pattern \<longrightarrow> \<not> detect_raw_mode data)"
  by (simp add: detect_raw_mode_def)

theorem detect_raw_mode_sync_witness:
  "16 \<le> length (sync_pattern @ replicate 4 (0::byte)) \<and>
   py_slice (sync_pattern @ replicate 4 0) 0 12 = sync_pattern \<and>
   detect_raw_mode (sync_pattern @ replicate 4 0) \<and>
   12 \<le> length (replicate 12 (0::byte)) \<and>
   py_slice (replicate 12 (0::byte)) 0 12 \<noteq> sync_pattern \<and>
   \<not> detect_raw_mode (replicate 12 0)"
  using detect_raw_mode_sync [of "sync_pattern @ replicate 4 0"]
    detect_raw_mode_sync [of "replicate 12 0"]
  by (simp add: py_slice_def length_sync_pattern)
     (simp add: sync_pattern_def replicate_10 replicate_12)

text \<open>
  The 12-byte buffer that is the sync pattern itself starts with the sync pattern and
  is Stripped.
\<close>

theorem detect_raw_mode_short_sync_counterexample:
  "py_slice sync_pattern 0 12 = sync_pattern \<and> \<not> detect_raw_mode sync_pattern"
  by (simp add: detect_raw_mode_def py_slice_def length_sync_pattern)

subsection \<open>Truncated buffers\<close>

text \<open>
  C6. If the 2048-byte window of a sector (at offset \<open>sector * 2352 + 16\<close> in Raw mode,
  \<open>sector * 2048\<close> in Stripped mode) would end past the end of the buffer, then
  \<^verbatim>\<open>read_sector_data\<close> returns \<^verbatim>\<open>None\<close>, and the scan loop of \<^verbatim>\<open>find_saturn_header\<close>
  goes on with the remaining sectors as if that sector were not in the list. The scan as
  a whole returns the absence result only when no window that fits the buffer starts with
  the signature, under the detected mode and, for a Raw detection, under Stripped too.
\<close>

theorem truncated_window_skipped:
  assumes "(if raw_mode then sector * 2352 + 16 else sector * 2048) + 2048 > length data"
  shows "read_sector_data data sector raw_mode = None \<and>
         scan_sectors data raw_mode (pre @ sector # rest) =
           scan_sectors data raw_mode (pre @ rest) \<and>
         (fst (find_saturn_header data) = None \<longleftrightarrow>
            (\<forall>s<16. (if detect_raw_mode data then s * 2352 + 16 else s * 2048) + 2048
                        \<le> length data \<longrightarrow>
                     py_slice data (if detect_raw_mode data then s * 2352 + 16 else s * 2048)
                       ((if detect_raw_mode data then s * 2352 + 16 else s * 2048) + 16)
                     \<noteq> SATURN_MAGIC) \<and>
            (detect_raw_mode data \<longrightarrow>
               (\<forall>s<16. s * 2048 + 2048 \<le> length data \<longrightarrow>
                        py_slice data (s * 2048) (s * 2048 + 16) \<noteq> SATURN_MAGIC)))"
proof -
  have none: "read_sector_data data sector raw_mode = None"
    using assms by (simp add: read_sector_data_def sector_consts Let_def split: if_splits)
  hence "\<not> is_header_sector (read_sector_data data sector raw_mode)"
    by (simp add: is_header_sector_def)
  hence skip: "scan_sectors data raw_mode (pre @ sector # rest) =
                 scan_sectors data raw_mode (pre @ rest)"
    by (rule scan_sectors_skip)
  have whole: "fst (find_saturn_header data) = None \<longleftrightarrow>
            (\<forall>s<16. (if detect_raw_mode data then s * 2352 + 16 else s * 2048) + 2048
                        \<le> length data \<longrightarrow>
                     py_slice data (if detect_raw_mode data then s * 2352 + 16 else s * 2048)
                       ((if detect_raw_mode data then s * 2352 + 16 else s * 2048) + 16)
                     \<noteq> SATURN_MAGIC) \<and>
            (detect_raw_mode data \<longrightarrow>
               (\<forall>s<16. s * 2048 + 2048 \<le> length data \<longrightarrow>
                        py_slice data (s * 2048) (s * 2048 + 16) \<noteq> SATURN_MAGIC))"
    unfolding find_saturn_header_None_iff is_header_sector_read Let_def
    by (cases "detect_raw_mode data") simp_all
  from none skip whole show ?thesis by blast
qed

theorem truncated_window_skipped_witness:
  "length image_truncated < 1 * 2352 + 16 + 2048 \<and>
   read_sector_data image_truncated 1 True = None \<and>
   scan_sectors image_truncated True ([0] @ 1 # [2, 3]) =
     scan_sectors image_truncated True ([0] @ [2, 3]) \<and>
   detect_raw_mode image_truncated \<and>
   fst (find_saturn_header image_truncated) \<noteq> None"
proof -
  have len: "length image_truncated = 4096"
    by (simp add: image_truncated_def length_SATURN_MAGIC length_sync_pattern)
  have raw: "detect_raw_mode image_truncated"
    by (simp add: detect_raw_mode_def py_slice_def image_truncated_def length_sync_pattern)
  have sig: "py_slice image_truncated (1 * 2048) (1 * 2048 + 16) = SATURN_MAGIC"
    by (simp add: image_truncated_def py_slice_def length_SATURN_MAGIC length_sync_pattern)
  have trunc: "(if True then 1 * 2352 + 16 else 1 * 2048) + 2048 > length image_truncated"
    by (simp add: len)
  note t = truncated_window_skipped [OF trunc, of "[0]" "[2, 3]"]
  have "fst (find_saturn_header image_truncated) \<noteq> None"
  proof
    assume "fst (find_saturn_header image_truncated) = None"
    with t raw have a: "\<forall>s<16. s * 2048 + 2048 \<le> length image_truncated \<longrightarrow>
        py_slice image_truncated (s * 2048) (s * 2048 + 16) \<noteq> SATURN_MAGIC"
      by blast
    have "py_slice image_truncated (1 * 2048) (1 * 2048 + 16) \<noteq> SATURN_MAGIC"
      using a [rule_format, of 1] len by simp
    with sig show False by contradiction
  qed
  with t raw len show ?thesis by simp
qed

subsection \<open>Peripheral codes\<close>

text \<open>
  C7. For every 256-byte header, \<^verbatim>\<open>extract_peripheral_codes\<close> decodes the 16 bytes at
  \<open>0x50..0x5F\<close> and returns as codes exactly the characters of the decoded field that
  are not a space, not a null character and printable, in their order and with their
  duplicates, so at most 16 of them; a field \<^verbatim>\<open>JAMK\<close> followed by 12 spaces gives the
  codes \<^verbatim>\<open>['J', 'A', 'M', 'K']\<close>.
\<close>

theorem extract_peripheral_codes_filter:
  assumes "length header = 256"
  shows "fst (extract_peripheral_codes header) =
           map (\<lambda>b. if b < 0x80 then unat b else 0xFFFD) (py_slice header 0x50 0x60) \<and>
         length (fst (extract_peripheral_codes header)) = 16 \<and>
         snd (extract_peripheral_codes header) =
           filter (\<lambda>c. c \<noteq> 0x20 \<and> c \<noteq> 0x00 \<and> isprintable c)
             (fst (extract_peripheral_codes header)) \<and>
         length (snd (extract_peripheral_codes header)) \<le> 16 \<and>
         (py_slice header 0x50 0x60 = bytes_lit ''JAMK'' @ replicate 12 0x20 \<longrightarrow>
            snd (extract_peripheral_codes header) = str_lit ''JAMK'')"
proof -
  have len: "length (fst (extract_peripheral_codes header)) = 16"
    using assms by (simp add: peripheral_field py_slice_def)
  have le: "length (snd (extract_peripheral_codes header)) \<le> 16"
    unfolding peripheral_codes_eq
    using len length_filter_le [of _ "fst (extract_peripheral_codes header)"]
    by (metis (lifting))
  have jamk: "snd (extract_peripheral_codes header) = str_lit ''JAMK''"
    if "py_slice header 0x50 0x60 = bytes_lit ''JAMK'' @ replicate 12 0x20"
    unfolding peripheral_codes_eq peripheral_field that
    by (simp add: bytes_lit_def str_lit_def replicate_12 isprintable_def)
  show ?thesis
    using len le jamk peripheral_field peripheral_codes_eq by blast
qed

theorem extract_peripheral_codes_filter_witness:
  "length header_jamk = 256 \<and>
   py_slice header_jamk 0x50 0x60 = bytes_lit ''JAMK'' @ replicate 12 0x20 \<and>
   snd (extract_peripheral_codes header_jamk) = str_lit ''JAMK''"
proof -
  have len: "length header_jamk = 256"
    by (simp add: header_jamk_def length_SATURN_MAGIC bytes_lit_def)
  have field: "py_slice header_jamk 0x50 0x60 = bytes_lit ''JAMK'' @ replicate 12 0x20"
    by (simp add: header_jamk_def length_SATURN_MAGIC py_slice_def bytes_lit_def)
  from extract_peripheral_codes_filter [OF len] field len show ?thesis by blast
qed

text \<open>
  C8. \<^verbatim>\<open>get_human_readable_peripherals\<close> maps each code to the catalog's name when it is
  one of the 16 characters \<^verbatim>\<open>J A E M K S T G W C D X Q F R P\<close> and to
  \<^verbatim>\<open>Unknown(<code>)\<close> otherwise, and joins the results with a comma and a space; every
  one of the 16 characters has a name; the codes \<^verbatim>\<open>['J', 'Z']\<close> give
  \<^verbatim>\<open>Control Pad, Unknown(Z)\<close>. The function returns a string for every list of codes.
\<close>

theorem get_human_readable_peripherals_describe:
  "get_human_readable_peripherals self =
     join (str_lit '', '')
       (map (\<lambda>code. if code \<in> of_char ` set ''JAEMKSTGWCDXQFRP''
                     then the (PERIPHERAL_CODES code)
                     else str_lit ''Unknown('' @ [code] @ str_lit '')'')
            (peripheral_codes self)) \<and>
   (\<forall>code \<in> of_char ` set ''JAEMKSTGWCDXQFRP''. \<exists>name. PERIPHERAL_CODES code = Some name) \<and>
   (peripheral_codes self = str_lit ''JZ'' \<longrightarrow>
      get_human_readable_peripherals self = str_lit ''Control Pad, Unknown(Z)'')"
proof -
  have m: "(case PERIPHERAL_CODES code of Some name \<Rightarrow> name
            | None \<Rightarrow> str_lit ''Unknown('' @ [code] @ str_lit '')'') =
           (if code \<in> of_char ` set ''JAEMKSTGWCDXQFRP'' then the (PERIPHERAL_CODES code)
            else str_lit ''Unknown('' @ [code] @ str_lit '')'')" for code
    unfolding dom_PERIPHERAL_CODES [symmetric] by (auto split: option.splits)
  have a: "get_human_readable_peripherals self =
     join (str_lit '', '')
       (map (\<lambda>code. if code \<in> of_char ` set ''JAEMKSTGWCDXQFRP''
                     then the (PERIPHERAL_CODES code)
                     else str_lit ''Unknown('' @ [code] @ str_lit '')'')
            (peripheral_codes self))"
    by (simp add: get_human_readable_peripherals_def describe_codes_map m)
  have b: "\<forall>code \<in> of_char ` set ''JAEMKSTGWCDXQFRP''. \<exists>name. PERIPHERAL_CODES code = Some name"
    unfolding dom_PERIPHERAL_CODES [symmetric] by blast
  have c: "get_human_readable_peripherals self = str_lit ''Control Pad, Unknown(Z)''"
    if "peripheral_codes self = str_lit ''JZ''"
    by (simp add: get_human_readable_peripherals_def that str_lit_def PERIPHERAL_CODES_def)
  show ?thesis using a b c by blast
qed

theorem get_human_readable_peripherals_describe_witness:
  "get_human_readable_peripherals ((ScanResult_init [])\<lparr>peripheral_codes := str_lit ''JZ''\<rparr>) =
     str_lit ''Control Pad, Unknown(Z)''"
proof -
  have "peripheral_codes ((ScanResult_init [])\<lparr>peripheral_codes := str_lit ''JZ''\<rparr>) =
          str_lit ''JZ''"
    by simp
  with get_human_readable_peripherals_describe
         [of "(ScanResult_init [])\<lparr>peripheral_codes := str_lit ''JZ''\<rparr>"]
  show ?thesis by blast
qed

subsection \<open>Decoding never fails\<close>

text \<open>
  C9. Field decoding never fails. Decoding with replacement returns a text for every
  byte string, so for every header (the 256-byte ones among them)
  \<^verbatim>\<open>extract_game_info\<close> returns the four decoded and right-stripped fields and
  \<^verbatim>\<open>extract_peripheral_codes\<close> the decoded peripheral field. If the decoding of the
  title, the version, the product number or the area codes raises, all four fields are
  the empty string; if the decoding of the peripheral field raises, that field is the
  lowercase hexadecimal dump of its bytes, whatever happens to the other four. Every
  buffer gives either the explicit absence result or a result with all fields decoded.
\<close>

theorem field_decoding_never_fails:
  "(\<exists>text. decode_ascii_replace bs = Inr text) \<and>
   extract_game_info header =
     (rstrip (map (\<lambda>b. if b < 0x80 then unat b else 0xFFFD) (py_slice header 0x60 (0x60 + 112))),
      rstrip (map (\<lambda>b. if b < 0x80 then unat b else 0xFFFD) (py_slice header 0x2A (0x2A + 6))),
      rstrip (map (\<lambda>b. if b < 0x80 then unat b else 0xFFFD) (py_slice header 0x20 (0x20 + 10))),
      rstrip (map (\<lambda>b. if b < 0x80 then unat b else 0xFFFD) (py_slice header 0x40 (0x40 + 16)))) \<and>
   fst (extract_peripheral_codes header) =
     map (\<lambda>b. if b < 0x80 then unat b else 0xFFFD) (py_slice header 0x50 (0x50 + 16)) \<and>
   (decode (py_slice header 0x60 (0x60 + 112)) = Inl e \<or>
    decode (py_slice header 0x2A (0x2A + 6)) = Inl e \<or>
    decode (py_slice header 0x20 (0x20 + 10)) = Inl e \<or>
    decode (py_slice header 0x40 (0x40 + 16)) = Inl e \<longrightarrow>
      extract_game_info_with decode header = ([], [], [], [])) \<and>
   (decode (py_slice header 0x50 (0x50 + 16)) = Inl e \<longrightarrow>
      extract_peripheral_codes_with decode header =
        (hex (py_slice header 0x50 (0x50 + 16)),
         collect_codes (hex (py_slice header 0x50 (0x50 + 16))) [])) \<and>
   (fst (find_saturn_header data) = None \<longrightarrow>
      scan_data path data =
        (ScanResult_init path)\<lparr>skipped := True,
                                 skip_reason := str_lit ''No Saturn header found''\<rparr>) \<and>
   (\<forall>found. fst (find_saturn_header data) = Some found \<longrightarrow>
      success (scan_data path data) \<and> \<not> skipped (scan_data path data) \<and>
      (peripheral_raw (scan_data path data), peripheral_codes (scan_data path data)) =
        extract_peripheral_codes found \<and>
      (game_title (scan_data path data), version (scan_data path data),
       product_number (scan_data path data), area_codes (scan_data path data)) =
        extract_game_info found)"
proof -
  have total: "\<exists>text. decode_ascii_replace bs = Inr text"
    by (simp add: decode_ascii_replace_def)
  have info: "extract_game_info header =
     (rstrip (map (\<lambda>b. if b < 0x80 then unat b else 0xFFFD) (py_slice header 0x60 (0x60 + 112))),
      rstrip (map (\<lambda>b. if b < 0x80 then unat b else 0xFFFD) (py_slice header 0x2A (0x2A + 6))),
      rstrip (map (\<lambda>b. if b < 0x80 then unat b else 0xFFFD) (py_slice header 0x20 (0x20 + 10))),
      rstrip (map (\<lambda>b. if b < 0x80 then unat b else 0xFFFD) (py_slice header 0x40 (0x40 + 16))))"
    by (simp add: extract_game_info_def extract_game_info_with_def decode_ascii_replace_def
        field_offsets)
  have periph: "fst (extract_peripheral_codes header) =
     map (\<lambda>b. if b < 0x80 then unat b else 0xFFFD) (py_slice header 0x50 (0x50 + 16))"
    by (simp add: peripheral_field)
  have blank: "extract_game_info_with decode header = ([], [], [], [])"
    if "decode (py_slice header 0x60 (0x60 + 112)) = Inl e \<or>
        decode (py_slice header 0x2A (0x2A + 6)) = Inl e \<or>
        decode (py_slice header 0x20 (0x20 + 10)) = Inl e \<or>
        decode (py_slice header 0x40 (0x40 + 16)) = Inl e"
    using that
    by (auto simp add: extract_game_info_with_def field_offsets split: sum.splits)
  have dump: "extract_peripheral_codes_with decode header =
        (hex (py_slice header 0x50 (0x50 + 16)),
         collect_codes (hex (py_slice header 0x50 (0x50 + 16))) [])"
    if "decode (py_slice header 0x50 (0x50 + 16)) = Inl e"
    using that by (simp add: extract_peripheral_codes_with_def field_offsets Let_def)
  have absent: "scan_data path data =
        (ScanResult_init path)\<lparr>skipped := True,
                                 skip_reason := str_lit ''No Saturn header found''\<rparr>"
    if "fst (find_saturn_header data) = None"
    using that by (cases "find_saturn_header data") (simp add: scan_data_def Let_def)
  have decoded: "success (scan_data path data) \<and> \<not> skipped (scan_data path data) \<and>
      (peripheral_raw (scan_data path data), peripheral_codes (scan_data path data)) =
        extract_peripheral_codes found \<and>
      (game_title (scan_data path data), version (scan_data path data),
       product_number (scan_data path data), area_codes (scan_data path data)) =
        extract_game_info found"
    if "fst (find_saturn_header data) = Some found" for found
    using that
    by (cases "find_saturn_header data")
       (auto simp add: scan_data_def ScanResult_init_def Let_def split: prod.splits)
  show ?thesis
    using total info periph blank dump absent decoded by blast
qed

theorem field_decoding_never_fails_witness:
  "decode_ascii_strict (py_slice header_bad_title 0x60 (0x60 + 112)) = Inl Raised \<and>
   extract_game_info_with decode_ascii_strict header_bad_title = ([], [], [], []) \<and>
   extract_game_info header_bad_title = ([0xFFFD], [], [], []) \<and>
   decode_ascii_strict (py_slice header_non_ascii 0x50 (0x50 + 16)) = Inl Raised \<and>
   extract_peripheral_codes_with decode_ascii_strict header_non_ascii =
     (str_lit ''e94a2020202020202020202020202020'',
      str_lit ''e94a2020202020202020202020202020'') \<and>
   fst (extract_peripheral_codes header_non_ascii) = [0xFFFD, 0x4A] @ replicate 14 0x20"
proof -
  have title: "py_slice header_bad_title 0x60 (0x60 + 112) = [0xE9] @ replicate 111 0x20"
    by (simp add: header_bad_title_def py_slice_def length_SATURN_MAGIC)
  have version: "py_slice header_bad_title 0x2A (0x2A + 6) = replicate 6 0x20"
    by (simp add: header_bad_title_def py_slice_def length_SATURN_MAGIC)
  have product: "py_slice header_bad_title 0x20 (0x20 + 10) = replicate 10 0x20"
    by (simp add: header_bad_title_def py_slice_def length_SATURN_MAGIC)
  have area: "py_slice header_bad_title 0x40 (0x40 + 16) = replicate 16 0x20"
    by (simp add: header_bad_title_def py_slice_def length_SATURN_MAGIC)
  have field: "py_slice header_non_ascii 0x50 (0x50 + 16) = [0xE9, 0x4A] @ replicate 14 0x20"
    by (simp add: header_non_ascii_def py_slice_def length_SATURN_MAGIC)
  have raise1: "decode_ascii_strict (py_slice header_bad_title 0x60 (0x60 + 112)) = Inl Raised"
    unfolding title by (simp add: decode_ascii_strict_def)
  have raise2: "decode_ascii_strict (py_slice header_non_ascii 0x50 (0x50 + 16)) = Inl Raised"
    unfolding field by (simp add: decode_ascii_strict_def)
  note t1 = field_decoding_never_fails
              [where decode = decode_ascii_strict and header = header_bad_title and e = Raised]
  note t2 = field_decoding_never_fails
              [where decode = decode_ascii_strict and header = header_non_ascii and e = Raised]
  note info = t1 [THEN conjunct2, THEN conjunct1]
  note blank = t1 [THEN conjunct2, THEN conjunct2, THEN conjunct2, THEN conjunct1]
  note periph = t2 [THEN conjunct2, THEN conjunct2, THEN conjunct1]
  note dump = t2 [THEN conjunct2, THEN conjunct2, THEN conjunct2, THEN conjunct2,
                  THEN conjunct1]
  have a: "extract_game_info_with decode_ascii_strict header_bad_title = ([], [], [], [])"
    using blank raise1 by simp
  have b: "extract_game_info header_bad_title = ([0xFFFD], [], [], [])"
    unfolding info title version product area
    using rstrip_spaces [of "[0xFFFD]" 111]
    by (simp add: rstrip_spaces_only) (simp add: rstrip_def isspace_def)
  have "extract_peripheral_codes_with decode_ascii_strict header_non_ascii =
        (hex (py_slice header_non_ascii 0x50 (0x50 + 16)),
         collect_codes (hex (py_slice header_non_ascii 0x50 (0x50 + 16))) [])"
    using dump raise2 by simp
  hence c: "extract_peripheral_codes_with decode_ascii_strict header_non_ascii =
     (str_lit ''e94a2020202020202020202020202020'',
      str_lit ''e94a2020202020202020202020202020'')"
    unfolding field
    by (simp add: hex_def hex_digit_def str_lit_def replicate_14 isprintable_def)
  have d: "fst (extract_peripheral_codes header_non_ascii) = [0xFFFD, 0x4A] @ replicate 14 0x20"
    unfolding periph field by simp
  from raise1 a b raise2 c d show ?thesis by simp
qed

subsection \<open>Bytes outside ASCII in the peripheral field\<close>

text \<open>
  C10. For every 256-byte header whose peripheral field has a byte from \<open>0x80\<close> up at
  position \<open>i\<close>, the decoded field has U+FFFD at position \<open>i\<close>; U+FFFD is printable and
  is kept among the codes, once for every such byte of the field; and the descriptions
  contain \<^verbatim>\<open>Unknown(\<close>, the character U+FFFD, \<^verbatim>\<open>)\<close> for it.
\<close>

theorem non_ascii_peripheral_byte_unknown:
  assumes "length header = 256" and "i < 16" and "0x80 \<le> header ! (0x50 + i)"
  shows "fst (extract_peripheral_codes header) ! i = 0xFFFD \<and>
         isprintable 0xFFFD \<and>
         0xFFFD \<in> set (snd (extract_peripheral_codes header)) \<and>
         count_list (snd (extract_peripheral_codes header)) 0xFFFD =
           length (filter (\<lambda>b. 0x80 \<le> b) (py_slice header 0x50 0x60)) \<and>
         str_lit ''Unknown('' @ [0xFFFD] @ str_lit '')'' \<in>
           set (describe_codes (snd (extract_peripheral_codes header)) []) \<and>
         (\<forall>self. peripheral_codes self = [0xFFFD] \<longrightarrow>
            get_human_readable_peripherals self = str_lit ''Unknown('' @ [0xFFFD] @ str_lit '')'')"
proof -
  let ?field = "py_slice header 0x50 0x60"
  have len: "length ?field = 16" using assms(1) by (simp add: py_slice_def)
  have nth: "?field ! i = header ! (0x50 + i)"
    using assms(1,2) by (simp add: py_slice_def)
  have raw: "fst (extract_peripheral_codes header) ! i = 0xFFFD"
  proof -
    have "\<not> header ! (0x50 + i) < 0x80" using assms(3) by auto
    thus ?thesis using assms(2) len nth by (simp add: peripheral_field)
  qed
  have cnt: "count_list (snd (extract_peripheral_codes header)) 0xFFFD =
           length (filter (\<lambda>b. 0x80 \<le> b) ?field)"
    unfolding peripheral_codes_eq peripheral_field by (rule count_repl)
  have "?field ! i \<in> set ?field" using len assms(2) by (metis nth_mem)
  hence "filter (\<lambda>b. 0x80 \<le> b) ?field \<noteq> []"
    using assms(3) nth by (auto simp add: filter_empty_conv)
  hence "count_list (snd (extract_peripheral_codes header)) 0xFFFD \<noteq> 0"
    using cnt by simp
  hence mem: "0xFFFD \<in> set (snd (extract_peripheral_codes header))"
    by (simp add: count_list_0_iff)
  have none: "PERIPHERAL_CODES 0xFFFD = None"
    by (simp add: PERIPHERAL_CODES_def)
  have desc: "str_lit ''Unknown('' @ [0xFFFD] @ str_lit '')'' \<in>
           set (describe_codes (snd (extract_peripheral_codes header)) [])"
    unfolding describe_codes_map using mem none by (force simp add: image_iff)
  have one: "get_human_readable_peripherals self = str_lit ''Unknown('' @ [0xFFFD] @ str_lit '')''"
    if "peripheral_codes self = [0xFFFD]" for self
    by (simp add: get_human_readable_peripherals_def that none)
  show ?thesis using raw mem cnt desc one by (simp add: isprintable_def)
qed

theorem non_ascii_peripheral_byte_unknown_witness:
  "length header_non_ascii = 256 \<and> (0::nat) < 16 \<and> 0x80 \<le> header_non_ascii ! (0x50 + 0) \<and>
   fst (extract_peripheral_codes header_non_ascii) ! 0 = 0xFFFD \<and>
   0xFFFD \<in> set (snd (extract_peripheral_codes header_non_ascii)) \<and>
   count_list (snd (extract_peripheral_codes header_non_ascii)) 0xFFFD = 1 \<and>
   str_lit ''Unknown('' @ [0xFFFD] @ str_lit '')'' \<in>
     set (describe_codes (snd (extract_peripheral_codes header_non_ascii)) [])"
proof -
  have len: "length header_non_ascii = 256"
    by (simp add: header_non_ascii_def length_SATURN_MAGIC)
  have byte: "0x80 \<le> header_non_ascii ! (0x50 + 0)"
    by (simp add: header_non_ascii_def length_SATURN_MAGIC nth_append)
  have field: "py_slice header_non_ascii 0x50 0x60 = [0xE9, 0x4A] @ replicate 14 0x20"
    by (simp add: header_non_ascii_def py_slice_def length_SATURN_MAGIC)
  have one: "length (filter (\<lambda>b. 0x80 \<le> b) (py_slice header_non_ascii 0x50 0x60)) = 1"
    unfolding field by simp
  from non_ascii_peripheral_byte_unknown [OF len _ byte, of] one len byte
  show ?thesis by simp
qed

end
